theory Spec2Isabelle
  imports Main
begin

section \<open>Data model\<close>

text \<open>
  Byte sequences are \<open>string\<close> (a list of 8-bit characters). A Go \<open>error\<close> value is
  opaque to the program, which only tests it against \<open>nil\<close> and passes it on; it is a
  value carrying its message.
\<close>

datatype go_error = GoError string

text \<open>
  An \<open>io.ReadCloser\<close>: a single-read stream. \<open>pending\<close> are the bytes a reader will
  still obtain, \<open>failure\<close> is the error the stream reports once those bytes are
  delivered (\<open>None\<close>: a clean end of file), \<open>closed\<close> records a call of \<open>Close\<close>.
\<close>

record stream =
  pending :: string
  failure :: "go_error option"
  closed :: bool

text \<open>
  \<open>io.ReadAll\<close> reads until end of file or an error and returns the bytes read so far
  together with the error (\<open>nil\<close> at end of file). The stream is left drained.
\<close>

definition ReadAll :: "stream \<Rightarrow> string \<times> go_error option \<times> stream" where
  "ReadAll s = (pending s, failure s, s\<lparr>pending := []\<rparr>)"

definition Close :: "stream \<Rightarrow> stream" where
  "Close s = s\<lparr>closed := True\<rparr>"

text \<open>\<open>io.NopCloser(bytes.NewBuffer(b))\<close>: a fresh reader over the buffer \<open>b\<close>, at offset zero,
  on which a read never fails.\<close>

definition NopCloser :: "string \<Rightarrow> stream" where
  "NopCloser b = \<lparr>pending = b, failure = None, closed = False\<rparr>"

text \<open>
  \<open>http.Header\<close> is a \<open>map[string][]string\<close>. \<open>Del\<close> removes the entry of the canonical form
  of the key; the only key the program deletes, \<open>X-Forwarded-For\<close>, is its own canonical form.
\<close>

type_synonym header = "string \<rightharpoonup> string list"

definition Del :: "header \<Rightarrow> string \<Rightarrow> header" where
  "Del h k = h(k := None)"

record url =
  Scheme :: string
  URLHost :: string
  Path :: string
  RawPath :: string
  RawQuery :: string
  Fragment :: string

record request =
  Method :: string
  URL :: url
  Host :: string
  Header :: header
  Body :: "stream option"
  RemoteAddr :: string

record response =
  Status :: string
  StatusCode :: nat
  RespHeader :: header
  RespBody :: "stream option"

text \<open>\<open>req.Clone(ctx)\<close> is a deep copy that shares only the \<open>Body\<close>; on values it is the
  identity.\<close>

definition Clone :: "request \<Rightarrow> request" where
  "Clone r = r"

text \<open>
  What the logger and the console receive. Messages are identified by the call that emits
  them; time stamps and durations are left out.
\<close>

datatype log_event =
    ReqBodyReadFailed go_error
  | ReqDumpFailed go_error
  | ReqInfo string url
  | ReqTarget url
  | ReqPrinted string
  | TransportFailed go_error
  | RespBodyReadFailed go_error
  | RespDumpFailed go_error
  | RespInfo string
  | RespPrinted string
  | ClientBodyReadFailed go_error
  | ClientReqInfo string string string
  | ClientDumpFailed go_error
  | ClientPrinted string
  | ProxyError go_error

text \<open>The functions of \<open>net/http/httputil\<close> that render a message; each may fail.\<close>

record httputil =
  DumpRequestOut :: "request \<Rightarrow> go_error + string"
  DumpRequest :: "request \<Rightarrow> go_error + string"
  DumpResponse :: "response \<Rightarrow> go_error + string"

text \<open>The \<open>customRoundTripper\<close> struct; its logger is the list of events a call returns.\<close>

record customRoundTripper =
  proxied :: "request \<Rightarrow> go_error + response"
  reqColor :: "string \<Rightarrow> string"
  respColor :: "string \<Rightarrow> string"

text \<open>
  The pair \<open>(*http.Response, error)\<close> a \<open>RoundTrip\<close> returns: \<open>Ok resp\<close> is \<open>(resp, nil)\<close>,
  \<open>Failed None e\<close> is \<open>(nil, e)\<close> and \<open>Failed (Some resp) e\<close> is \<open>(resp, e)\<close>.
\<close>

datatype rt_result = Ok response | Failed "response option" go_error

text \<open>
  Everything one call of \<open>RoundTrip\<close> does: its result, the request it handed to the
  underlying transport (if it got that far), the clones it handed to the dump functions,
  the state in which it left the stream objects it read, and what it logged.
\<close>

record rt_outcome =
  result :: rt_result
  sent :: "request option"
  reqDumped :: "request option"
  respDumped :: "response option"
  reqStream :: "stream option"
  respStream :: "stream option"
  logs :: "log_event list"

section \<open>The observing transport (main.go)\<close>

definition logRequest :: "httputil \<Rightarrow> customRoundTripper \<Rightarrow> request \<Rightarrow> request \<Rightarrow> log_event list" where
  "logRequest lib crt req logReq =
     (case DumpRequestOut lib logReq of
        Inl err \<Rightarrow> [ReqDumpFailed err]
      | Inr reqDump \<Rightarrow> [ReqInfo (Method req) (URL req), ReqPrinted (reqColor crt reqDump)])"

definition logResponse :: "httputil \<Rightarrow> customRoundTripper \<Rightarrow> response \<Rightarrow> response \<Rightarrow> log_event list" where
  "logResponse lib crt resp logResp =
     (case DumpResponse lib logResp of
        Inl err \<Rightarrow> [RespDumpFailed err]
      | Inr respDump \<Rightarrow> [RespInfo (Status resp), RespPrinted (respColor crt respDump)])"

text \<open>The second half of \<open>RoundTrip\<close>, from the call of the underlying transport on.\<close>

definition execute :: "httputil \<Rightarrow> customRoundTripper \<Rightarrow> request \<Rightarrow> request \<Rightarrow>
    stream option \<Rightarrow> log_event list \<Rightarrow> rt_outcome" where
  "execute lib crt req logReq orig log1 =
     (case proxied crt req of
        Inl err \<Rightarrow>
          \<lparr>result = Failed None err, sent = Some req, reqDumped = Some logReq,
           respDumped = None, reqStream = orig, respStream = None,
           logs = log1 @ [TransportFailed err]\<rparr>
      | Inr resp \<Rightarrow>
          (case (case RespBody resp of
                   None \<Rightarrow> ([], None, None)
                 | Some s \<Rightarrow> (case ReadAll s of (data, err, s') \<Rightarrow> (data, err, Some s'))) of
             (respBody, Some readErr, rs) \<Rightarrow>
               \<lparr>result = Failed (Some (resp\<lparr>RespBody := rs\<rparr>)) readErr, sent = Some req,
                reqDumped = Some logReq, respDumped = None, reqStream = orig,
                respStream = rs, logs = log1 @ [RespBodyReadFailed readErr]\<rparr>
           | (respBody, None, rs) \<Rightarrow>
               (let resp' = resp\<lparr>RespBody := Some (NopCloser respBody)\<rparr>;
                    logResp = resp'\<lparr>RespBody := Some (NopCloser respBody)\<rparr>
                in \<lparr>result = Ok resp', sent = Some req, reqDumped = Some logReq,
                    respDumped = Some logResp, reqStream = orig, respStream = rs,
                    logs = log1 @ logResponse lib crt resp' logResp\<rparr>)))"

definition RoundTrip :: "httputil \<Rightarrow> customRoundTripper \<Rightarrow> request \<Rightarrow> rt_outcome" where
  "RoundTrip lib crt req0 =
     (let req = req0\<lparr>Header := Del (Header req0) ''X-Forwarded-For''\<rparr> in
      case (case Body req of
              None \<Rightarrow> ([], None, None)
            | Some s \<Rightarrow> (case ReadAll s of (data, err, s') \<Rightarrow> (data, err, Some s'))) of
        (reqBody, Some err, orig) \<Rightarrow>
          \<lparr>result = Failed None err, sent = None, reqDumped = None, respDumped = None,
           reqStream = orig, respStream = None, logs = [ReqBodyReadFailed err]\<rparr>
      | (reqBody, None, orig) \<Rightarrow>
          (let req' = req\<lparr>Body := Some (NopCloser reqBody)\<rparr>;
               logReq = (Clone req')\<lparr>Body := Some (NopCloser reqBody)\<rparr>
           in execute lib crt req' logReq orig (logRequest lib crt req' logReq)))"

section \<open>The transport of the second source file\<close>

text \<open>
  The second source file holds another \<open>RoundTrip\<close> of the same struct. It discards the
  errors of \<open>io.ReadAll\<close> and of \<open>DumpRequestOut\<close> (a failed dump leaves \<open>reqDump\<close> empty),
  closes the stream it drained, and returns what the underlying transport returns.
\<close>

definition RoundTrip_part000 :: "httputil \<Rightarrow> customRoundTripper \<Rightarrow> request \<Rightarrow> rt_outcome" where
  "RoundTrip_part000 lib crt req0 =
     (let req = req0\<lparr>Header := Del (Header req0) ''X-Forwarded-For''\<rparr>;
          (body, orig) = (case Body req of
                            None \<Rightarrow> ([], None)
                          | Some s \<Rightarrow> (case ReadAll s of (data, _, s') \<Rightarrow> (data, Some (Close s'))));
          req' = req\<lparr>Body := Some (NopCloser body)\<rparr>;
          logReq = (Clone req')\<lparr>Body := Some (NopCloser body)\<rparr>;
          reqDump = (case DumpRequestOut lib logReq of Inl _ \<Rightarrow> [] | Inr d \<Rightarrow> d)
      in \<lparr>result = (case proxied crt req' of Inl err \<Rightarrow> Failed None err | Inr resp \<Rightarrow> Ok resp),
          sent = Some req', reqDumped = Some logReq, respDumped = None,
          reqStream = orig, respStream = None,
          logs = [ReqTarget (URL req'), ReqPrinted (reqColor crt reqDump)]\<rparr>)"

section \<open>Director, error boundary, inbound handler and start-up\<close>

text \<open>The \<open>director\<close> closure of \<open>main\<close>, with the parsed target it captures as a parameter.
  Both source files define it with the same four assignments.\<close>

definition director :: "url \<Rightarrow> request \<Rightarrow> request" where
  "director target req =
     req\<lparr>URL := (URL req)\<lparr>Scheme := Scheme target, URLHost := URLHost target,
                            Path := Path target\<rparr>,
         Host := URLHost target\<rparr>"

definition director_part000 :: "url \<Rightarrow> request \<Rightarrow> request" where
  "director_part000 target req =
     req\<lparr>URL := (URL req)\<lparr>Scheme := Scheme target, URLHost := URLHost target,
                            Path := Path target\<rparr>,
         Host := URLHost target\<rparr>"

text \<open>What a client receives through the \<open>http.ResponseWriter\<close>: a status code and a body.\<close>

record client_response =
  Code :: nat
  Payload :: string

text \<open>\<open>http.Error(w, msg, code)\<close> writes the status and the message followed by a newline.\<close>

definition httpError :: "string \<Rightarrow> nat \<Rightarrow> client_response" where
  "httpError msg code = \<lparr>Code = code, Payload = msg @ [CHR 0x0A]\<rparr>"

definition StatusBadGateway :: nat where
  "StatusBadGateway = 502"

definition StatusInternalServerError :: nat where
  "StatusInternalServerError = 500"

text \<open>The message of the error boundary, as the bytes of its UTF-8 encoding.\<close>

definition proxyErrorMessage :: string where
  "proxyErrorMessage =
     [CHR 0xE3, CHR 0x83, CHR 0x97, CHR 0xE3, CHR 0x83, CHR 0xAD, CHR 0xE3, CHR 0x82, CHR 0xAD,
      CHR 0xE3, CHR 0x82, CHR 0xB7, CHR 0x20, CHR 0xE3, CHR 0x82, CHR 0xA8, CHR 0xE3, CHR 0x83,
      CHR 0xA9, CHR 0xE3, CHR 0x83, CHR 0xBC]"

text \<open>The \<open>ErrorHandler\<close> closure: the log event and the response it writes.\<close>

definition ErrorHandler :: "go_error \<Rightarrow> log_event list \<times> client_response list" where
  "ErrorHandler err = ([ProxyError err], [httpError proxyErrorMessage StatusBadGateway])"

text \<open>
  One exchange as seen from outside: the responses written to the client, the request
  the director was applied to and the outcome of the transport (both \<open>None\<close> when the
  pipeline was not entered), the state in which the client's body stream was left, and
  the log.
\<close>

record exchange =
  written :: "client_response list"
  directed :: "request option"
  transported :: "rt_outcome option"
  clientStream :: "stream option"
  events :: "log_event list"

text \<open>
  \<open>httputil.ReverseProxy.ServeHTTP\<close> of the standard library, as far as the program
  configures it: it clones the request, applies the \<open>Director\<close>, appends the client address
  to \<open>X-Forwarded-For\<close>, calls the \<open>Transport\<close>, and either hands a non-nil error to the
  \<open>ErrorHandler\<close> or copies status and body of the response to the client. Hop-by-hop
  header removal and the copying of response headers are left out, and so is the
  replacement of the body of a request of length zero by \<open>nil\<close>: \<open>RoundTrip\<close> turns an
  absent body and an empty one into the same empty reader.
\<close>

fun joinComma :: "string list \<Rightarrow> string" where
  "joinComma [] = []"
| "joinComma [x] = x"
| "joinComma (x # xs) = x @ '', '' @ joinComma xs"

definition addForwardedFor :: "string \<Rightarrow> request \<Rightarrow> request" where
  "addForwardedFor clientIP req =
     (let prior = (case Header req ''X-Forwarded-For'' of None \<Rightarrow> [] | Some vs \<Rightarrow> vs);
          v = (if prior = [] then clientIP else joinComma prior @ '', '' @ clientIP)
      in if Header req ''X-Forwarded-For'' = Some [] then req
         else req\<lparr>Header := (Header req)(''X-Forwarded-For'' \<mapsto> [v])\<rparr>)"

definition ServeHTTP :: "httputil \<Rightarrow> customRoundTripper \<Rightarrow> url \<Rightarrow> request \<Rightarrow> exchange" where
  "ServeHTTP lib crt target r =
     (let outreq = addForwardedFor (RemoteAddr r) (director target (Clone r));
          out = RoundTrip lib crt outreq
      in case result out of
           Failed _ err \<Rightarrow>
             (case ErrorHandler err of (l, w) \<Rightarrow>
                \<lparr>written = w, directed = Some (Clone r), transported = Some out,
                 clientStream = None, events = logs out @ l\<rparr>)
         | Ok res \<Rightarrow>
             \<lparr>written = [\<lparr>Code = StatusCode res,
                          Payload = (case RespBody res of None \<Rightarrow> []
                                     | Some s \<Rightarrow> fst (ReadAll s))\<rparr>],
              directed = Some (Clone r), transported = Some out,
              clientStream = None, events = logs out\<rparr>)"

text \<open>The \<open>handler\<close> closure of \<open>main\<close> (main.go).\<close>

definition handler :: "httputil \<Rightarrow> customRoundTripper \<Rightarrow> url \<Rightarrow> request \<Rightarrow> exchange" where
  "handler lib crt target r =
     (case (case Body r of
              None \<Rightarrow> ([], None, None)
            | Some s \<Rightarrow> (case ReadAll s of
                           (data, Some err, s') \<Rightarrow> (data, Some err, Some s')
                         | (data, None, s') \<Rightarrow> (data, None, Some (Close s')))) of
        (body, Some err, orig) \<Rightarrow>
          \<lparr>written = [httpError ''Server Error'' StatusInternalServerError],
           directed = None, transported = None, clientStream = orig,
           events = [ClientBodyReadFailed err]\<rparr>
      | (body, None, orig) \<Rightarrow>
          (let logReq = (Clone r)\<lparr>Body := Some (NopCloser body)\<rparr>;
               log1 = ClientReqInfo (Method r) (Path (URL r)) (RemoteAddr r) #
                      (case DumpRequest lib logReq of
                         Inl err \<Rightarrow> [ClientDumpFailed err]
                       | Inr reqDump \<Rightarrow> [ClientPrinted (reqColor crt reqDump)]);
               ex = ServeHTTP lib crt target (r\<lparr>Body := Some (NopCloser body)\<rparr>)
           in ex\<lparr>clientStream := orig, events := log1 @ events ex\<rparr>))"

text \<open>
  Start-up, from \<open>main\<close>: the command line is a list of flag names with their values, the
  flag set defines \<open>target\<close> (default empty) and \<open>listen\<close> (default \<open>:8080\<close>) and nothing
  else, so any other flag ends the process with status 2, as the \<open>flag\<close> package does.
  \<open>url.Parse\<close> is a parameter. \<open>Serve\<close> is the state in which \<open>main\<close> calls
  \<open>http.ListenAndServe\<close>, with the transport it has built.
\<close>

record transport_config =
  InsecureSkipVerify :: bool

record server =
  target :: url
  listenAddr :: string
  baseTransport :: transport_config

datatype startup = Exit nat | Serve server

fun flagParse :: "(string \<times> string) list \<Rightarrow> string \<times> string \<Rightarrow> (string \<times> string) option" where
  "flagParse [] (targetURL, listen) = Some (targetURL, listen)"
| "flagParse ((name, v) # rest) (targetURL, listen) =
     (if name = ''target'' then flagParse rest (v, listen)
      else if name = ''listen'' then flagParse rest (targetURL, v)
      else None)"

definition main :: "(string \<Rightarrow> go_error + url) \<Rightarrow> (string \<times> string) list \<Rightarrow> startup" where
  "main urlParse args =
     (case flagParse args ([], '':8080'') of
        None \<Rightarrow> Exit 2
      | Some (targetURL, listen) \<Rightarrow>
          (if targetURL = [] then Exit 1
           else case urlParse targetURL of
                  Inl err \<Rightarrow> Exit 1
                | Inr tgt \<Rightarrow>
                    Serve \<lparr>target = tgt, listenAddr = listen,
                           baseTransport = \<lparr>InsecureSkipVerify = True\<rparr>\<rparr>))"

section \<open>Notions used to state the properties\<close>

text \<open>The bytes a body holds (an absent body holds none), whether reading it to the end
  succeeds, and the request \<open>RoundTrip\<close> builds from its argument when the read succeeds.\<close>

definition bodyBytes :: "stream option \<Rightarrow> string" where
  "bodyBytes b = (case b of None \<Rightarrow> [] | Some s \<Rightarrow> pending s)"

definition readable :: "stream option \<Rightarrow> bool" where
  "readable b = (case b of None \<Rightarrow> True | Some s \<Rightarrow> failure s = None)"

definition forwarded :: "request \<Rightarrow> request" where
  "forwarded req = req\<lparr>Header := Del (Header req) ''X-Forwarded-For'',
                        Body := Some (NopCloser (bodyBytes (Body req)))\<rparr>"

text \<open>The request the handler passes on once it has read the client's body, the request
  that then reaches \<open>RoundTrip\<close>, and the two responses the program itself produces.\<close>

definition inbound :: "request \<Rightarrow> request" where
  "inbound r = r\<lparr>Body := Some (NopCloser (bodyBytes (Body r)))\<rparr>"

definition outbound :: "url \<Rightarrow> request \<Rightarrow> request" where
  "outbound tgt r = addForwardedFor (RemoteAddr r) (director tgt (inbound r))"

definition badGateway :: client_response where
  "badGateway = \<lparr>Code = 502, Payload = proxyErrorMessage @ [CHR 0x0A]\<rparr>"

definition serverError :: client_response where
  "serverError = \<lparr>Code = 500, Payload = ''Server Error'' @ [CHR 0x0A]\<rparr>"

subsection \<open>Concrete exchanges\<close>

definition backend :: url where
  "backend = \<lparr>Scheme = ''https'', URLHost = ''backend.example'', Path = ''/svc'',
              RawPath = [], RawQuery = [], Fragment = []\<rparr>"

definition pingRequest :: request where
  "pingRequest =
     \<lparr>Method = ''POST'',
      URL = \<lparr>Scheme = [], URLHost = [], Path = ''/svc'', RawPath = [], RawQuery = ''a=1'',
             Fragment = []\<rparr>,
      Host = ''localhost:8080'',
      Header = [''Content-Type'' \<mapsto> [''text/xml''], ''X-Forwarded-For'' \<mapsto> [''10.0.0.7'']],
      Body = Some (NopCloser ''<xml>ping</xml>''),
      RemoteAddr = ''10.0.0.9''\<rparr>"

text \<open>An upload that breaks off after seven bytes.\<close>

definition brokenUpload :: request where
  "brokenUpload =
     pingRequest\<lparr>Body := Some \<lparr>pending = ''<xml>pi'', failure = Some (GoError ''unexpected EOF''),
                                closed = False\<rparr>\<rparr>"

definition pongResponse :: response where
  "pongResponse = \<lparr>Status = ''200 OK'', StatusCode = 200, RespHeader = Map.empty,
                   RespBody = Some (NopCloser ''<xml>pong</xml>'')\<rparr>"

definition brokenDownload :: response where
  "brokenDownload =
     pongResponse\<lparr>RespBody := Some \<lparr>pending = ''<xml>po'', failure = Some (GoError ''connection reset''),
                                     closed = False\<rparr>\<rparr>"

definition plainDumps :: httputil where
  "plainDumps = \<lparr>DumpRequestOut = (\<lambda>r. Inr (Method r @ '' '' @ bodyBytes (Body r))),
                 DumpRequest = (\<lambda>r. Inr (Method r @ '' '' @ bodyBytes (Body r))),
                 DumpResponse = (\<lambda>r. Inr (Status r @ '' '' @ bodyBytes (RespBody r)))\<rparr>"


definition answering :: "response \<Rightarrow> customRoundTripper" where
  "answering resp = \<lparr>proxied = (\<lambda>r. Inr resp), reqColor = (\<lambda>x. x), respColor = (\<lambda>x. x)\<rparr>"

definition refusing :: customRoundTripper where
  "refusing = \<lparr>proxied = (\<lambda>r. Inl (GoError ''connection refused'')),
               reqColor = (\<lambda>x. x), respColor = (\<lambda>x. x)\<rparr>"

section \<open>Properties of the observing transport\<close>

lemma RoundTrip_unreadable:
  "Body req = Some s \<Longrightarrow> failure s = Some e \<Longrightarrow>
   RoundTrip lib crt req =
     \<lparr>result = Failed None e, sent = None, reqDumped = None, respDumped = None,
      reqStream = Some (s\<lparr>pending := []\<rparr>), respStream = None, logs = [ReqBodyReadFailed e]\<rparr>"
  by (simp add: RoundTrip_def ReadAll_def)

lemma RoundTrip_readable:
  "readable (Body req) \<Longrightarrow>
   RoundTrip lib crt req =
     execute lib crt (forwarded req) (forwarded req)
       (map_option (\<lambda>s. s\<lparr>pending := []\<rparr>) (Body req))
       (logRequest lib crt (forwarded req) (forwarded req))"
  by (simp add: RoundTrip_def ReadAll_def readable_def forwarded_def bodyBytes_def Clone_def Let_def
      split: option.splits)

lemma unreadableE:
  assumes "\<not> readable b"
  obtains s e where "b = Some s" "failure s = Some e"
  using assms by (auto simp: readable_def split: option.splits)

lemma sent_execute [simp]: "sent (execute lib crt q l orig lg) = Some q"
  by (simp add: execute_def Let_def split: sum.splits option.splits prod.splits)

lemma reqDumped_execute [simp]: "reqDumped (execute lib crt q l orig lg) = Some l"
  by (simp add: execute_def Let_def split: sum.splits option.splits prod.splits)

lemma reqStream_execute [simp]: "reqStream (execute lib crt q l orig lg) = orig"
  by (simp add: execute_def Let_def split: sum.splits option.splits prod.splits)

lemma sent_iff:
  "sent (RoundTrip lib crt req) = Some q \<longleftrightarrow> readable (Body req) \<and> q = forwarded req"
proof (cases "readable (Body req)")
  case True
  then show ?thesis by (auto simp: RoundTrip_readable)
next
  case False
  then show ?thesis by (auto elim!: unreadableE simp: RoundTrip_unreadable)
qed

lemma reqDumped_iff:
  "reqDumped (RoundTrip lib crt req) = Some l \<longleftrightarrow> readable (Body req) \<and> l = forwarded req"
proof (cases "readable (Body req)")
  case True
  then show ?thesis by (auto simp: RoundTrip_readable)
next
  case False
  then show ?thesis by (auto elim!: unreadableE simp: RoundTrip_unreadable)
qed

lemma execute_failed:
  "proxied crt q = Inl e \<Longrightarrow> result (execute lib crt q l orig lg) = Failed None e"
  by (simp add: execute_def)

lemma execute_truncated:
  "proxied crt q = Inr up \<Longrightarrow> RespBody up = Some t \<Longrightarrow> failure t = Some e \<Longrightarrow>
   result (execute lib crt q l orig lg) =
     Failed (Some (up\<lparr>RespBody := Some (t\<lparr>pending := []\<rparr>)\<rparr>)) e"
  by (simp add: execute_def ReadAll_def)





lemma RoundTrip_part000_sent:
  "sent (RoundTrip_part000 lib crt req) = Some (forwarded req)"
  by (simp add: RoundTrip_part000_def forwarded_def bodyBytes_def ReadAll_def Let_def
      split: option.splits prod.splits)

lemma reqDumped_part000: "reqDumped (RoundTrip_part000 lib crt req) = Some (forwarded req)"
  by (simp add: RoundTrip_part000_def forwarded_def bodyBytes_def ReadAll_def Clone_def Let_def
      split: option.splits prod.splits)

lemma Header_forwarded [simp]: "Header (forwarded req) ''X-Forwarded-For'' = None"
  by (simp add: forwarded_def Del_def)

lemma RoundTrip_aborts_on_read_error:
  "Body req = Some s \<Longrightarrow> failure s = Some e \<Longrightarrow>
   result (RoundTrip lib crt req) = Failed None e \<and> sent (RoundTrip lib crt req) = None"
  by (simp add: RoundTrip_unreadable)






section \<open>Properties of the whole exchange\<close>

lemma handler_unreadable:
  "Body r = Some s \<Longrightarrow> failure s = Some e \<Longrightarrow>
   handler lib crt tgt r =
     \<lparr>written = [serverError], directed = None, transported = None,
      clientStream = Some (s\<lparr>pending := []\<rparr>), events = [ClientBodyReadFailed e]\<rparr>"
  by (simp add: handler_def ReadAll_def serverError_def httpError_def StatusInternalServerError_def)

lemma transported_ServeHTTP:
  "transported (ServeHTTP lib crt tgt r) =
     Some (RoundTrip lib crt (addForwardedFor (RemoteAddr r) (director tgt r)))"
  by (simp add: ServeHTTP_def Clone_def Let_def split: rt_result.splits prod.splits)

lemma directed_ServeHTTP: "directed (ServeHTTP lib crt tgt r) = Some r"
  by (simp add: ServeHTTP_def Clone_def Let_def split: rt_result.splits prod.splits)

lemma written_ServeHTTP_Failed:
  "result (RoundTrip lib crt (addForwardedFor (RemoteAddr r) (director tgt r))) = Failed x e \<Longrightarrow>
   written (ServeHTTP lib crt tgt r) = [badGateway]"
  by (simp add: ServeHTTP_def Clone_def Let_def ErrorHandler_def badGateway_def httpError_def
      StatusBadGateway_def)


lemma handler_readable:
  assumes "readable (Body r)"
  shows "written (handler lib crt tgt r) = written (ServeHTTP lib crt tgt (inbound r))"
    and "directed (handler lib crt tgt r) = Some (inbound r)"
    and "transported (handler lib crt tgt r) = Some (RoundTrip lib crt (outbound tgt r))"
    and "clientStream (handler lib crt tgt r) = map_option (\<lambda>s. s\<lparr>pending := [], closed := True\<rparr>) (Body r)"
  using assms
  by (auto simp: handler_def ReadAll_def Close_def readable_def inbound_def outbound_def bodyBytes_def
      Clone_def Let_def transported_ServeHTTP directed_ServeHTTP split: option.splits)

lemma RemoteAddr_inbound [simp]: "RemoteAddr (inbound r) = RemoteAddr r"
  by (simp add: inbound_def)

lemma transported_handler_iff:
  "transported (handler lib crt tgt r) = Some out \<longleftrightarrow>
   readable (Body r) \<and> out = RoundTrip lib crt (outbound tgt r)"
proof (cases "readable (Body r)")
  case True
  then show ?thesis by (auto simp: handler_readable)
next
  case False
  then show ?thesis by (auto elim!: unreadableE simp: handler_unreadable)
qed

lemma readable_outbound [simp]: "readable (Body (outbound tgt r))"
  by (simp add: outbound_def addForwardedFor_def director_def inbound_def readable_def NopCloser_def Let_def)

lemma written_handler_Failed:
  "readable (Body r) \<Longrightarrow> result (RoundTrip lib crt (outbound tgt r)) = Failed x e \<Longrightarrow>
   written (handler lib crt tgt r) = [badGateway]"
  using written_ServeHTTP_Failed [of lib crt "inbound r" tgt x e]
  by (simp add: handler_readable outbound_def)



lemma Header_outbound_ping:
  "Header (outbound backend pingRequest) ''X-Forwarded-For'' = Some [''10.0.0.7, 10.0.0.9'']"
  by (simp add: outbound_def addForwardedFor_def director_def inbound_def pingRequest_def Let_def)

lemma main_skips_verification:
  "main urlParse args = Serve srv \<Longrightarrow> InsecureSkipVerify (baseTransport srv)"
  by (auto simp: main_def split: option.splits if_splits sum.splits prod.splits)

section \<open>The remaining claims\<close>




text \<open>
  Claim C4. When the underlying transport fails on the request it is handed, \<open>RoundTrip\<close>
  returns no response and that same error; and in an exchange entered through the handler
  the client is then written exactly one response, the 502 of the error boundary.
\<close>

theorem transport_failure_gives_502:
  "(\<forall>q e. sent (RoundTrip lib crt req) = Some q \<longrightarrow> proxied crt q = Inl e \<longrightarrow>
          result (RoundTrip lib crt req) = Failed None e) \<and>
   (\<forall>out q e. transported (handler lib crt tgt r) = Some out \<longrightarrow> sent out = Some q \<longrightarrow>
          proxied crt q = Inl e \<longrightarrow>
          result out = Failed None e \<and> written (handler lib crt tgt r) = [badGateway])"
proof -
  have 1: "result (RoundTrip lib crt x) = Failed None e"
    if "sent (RoundTrip lib crt x) = Some q" "proxied crt q = Inl e" for x q e
    using that by (simp add: sent_iff RoundTrip_readable execute_failed)
  have 2: "result out = Failed None e \<and> written (handler lib crt tgt r) = [badGateway]"
    if "transported (handler lib crt tgt r) = Some out" "sent out = Some q" "proxied crt q = Inl e"
    for out q e
  proof -
    from that(1) have r: "readable (Body r)" and o: "out = RoundTrip lib crt (outbound tgt r)"
      by (simp_all add: transported_handler_iff)
    from 1 that(2,3) o have "result (RoundTrip lib crt (outbound tgt r)) = Failed None e"
      by simp
    with r o show ?thesis by (simp add: written_handler_Failed)
  qed
  from 1 2 show ?thesis by blast
qed

theorem transport_failure_gives_502_witness:
  "sent (RoundTrip plainDumps refusing pingRequest) = Some (forwarded pingRequest) \<and>
   proxied refusing (forwarded pingRequest) = Inl (GoError ''connection refused'') \<and>
   result (RoundTrip plainDumps refusing pingRequest) =
     Failed None (GoError ''connection refused'') \<and>
   transported (handler plainDumps refusing backend pingRequest) =
     Some (RoundTrip plainDumps refusing (outbound backend pingRequest)) \<and>
   sent (RoundTrip plainDumps refusing (outbound backend pingRequest)) =
     Some (forwarded (outbound backend pingRequest)) \<and>
   proxied refusing (forwarded (outbound backend pingRequest)) =
     Inl (GoError ''connection refused'') \<and>
   result (RoundTrip plainDumps refusing (outbound backend pingRequest)) =
     Failed None (GoError ''connection refused'') \<and>
   written (handler plainDumps refusing backend pingRequest) = [badGateway] \<and>
   Code badGateway = 502"
proof -
  have r: "readable (Body pingRequest)"
    by (simp add: readable_def pingRequest_def NopCloser_def)
  have s: "sent (RoundTrip plainDumps refusing pingRequest) = Some (forwarded pingRequest)"
    using r by (simp add: sent_iff)
  have p: "proxied refusing q = Inl (GoError ''connection refused'')" for q
    by (simp add: refusing_def)
  have t: "transported (handler plainDumps refusing backend pingRequest) =
      Some (RoundTrip plainDumps refusing (outbound backend pingRequest))"
    using r by (simp add: handler_readable)
  have so: "sent (RoundTrip plainDumps refusing (outbound backend pingRequest)) =
      Some (forwarded (outbound backend pingRequest))"
    by (simp add: sent_iff)
  have c: "Code badGateway = 502"
    by (simp add: badGateway_def)
  from transport_failure_gives_502 [of plainDumps refusing pingRequest backend pingRequest]
    s p t so c
  show ?thesis by simp
qed

text \<open>
  Claim C5. When the first read of the client's body fails, the handler writes exactly one
  response, with status 500, and the pipeline is not entered: no request reaches the
  director and the transport is not called.
\<close>

theorem unreadable_client_body_gives_500:
  "Body r = Some s \<Longrightarrow> failure s = Some e \<Longrightarrow>
   written (handler lib crt tgt r) = [serverError] \<and>
   directed (handler lib crt tgt r) = None \<and>
   transported (handler lib crt tgt r) = None"
  by (simp add: handler_unreadable)

theorem unreadable_client_body_gives_500_witness:
  "Body brokenUpload =
     Some \<lparr>pending = ''<xml>pi'', failure = Some (GoError ''unexpected EOF''), closed = False\<rparr> \<and>
   written (handler plainDumps (answering pongResponse) backend brokenUpload) = [serverError] \<and>
   Code serverError = 500 \<and>
   directed (handler plainDumps (answering pongResponse) backend brokenUpload) = None \<and>
   transported (handler plainDumps (answering pongResponse) backend brokenUpload) = None"
proof -
  have b: "Body brokenUpload =
     Some \<lparr>pending = ''<xml>pi'', failure = Some (GoError ''unexpected EOF''), closed = False\<rparr>"
    by (simp add: brokenUpload_def)
  have f: "failure \<lparr>pending = ''<xml>pi'', failure = Some (GoError ''unexpected EOF''),
      closed = False\<rparr> = Some (GoError ''unexpected EOF'')"
    by simp
  have c: "Code serverError = 500"
    by (simp add: serverError_def)
  from unreadable_client_body_gives_500 [OF b f, of plainDumps "answering pongResponse" backend] b c
  show ?thesis by simp
qed

text \<open>
  Claim C6. No request handed to the underlying transport has an \<open>X-Forwarded-For\<close> entry
  in its header, in either source file, and neither has the clone handed to
  \<open>DumpRequestOut\<close>; this holds in particular for the request that reaches the transport
  through the handler, after the routing layer has added the entry.
\<close>

theorem forwarded_for_never_sent:
  "(\<forall>q. sent (RoundTrip lib crt req) = Some q \<longrightarrow> Header q ''X-Forwarded-For'' = None) \<and>
   (\<forall>l. reqDumped (RoundTrip lib crt req) = Some l \<longrightarrow> Header l ''X-Forwarded-For'' = None) \<and>
   (\<forall>q. sent (RoundTrip_part000 lib crt req) = Some q \<longrightarrow> Header q ''X-Forwarded-For'' = None) \<and>
   (\<forall>l. reqDumped (RoundTrip_part000 lib crt req) = Some l \<longrightarrow>
        Header l ''X-Forwarded-For'' = None) \<and>
   (\<forall>out q. transported (handler lib crt tgt r) = Some out \<longrightarrow> sent out = Some q \<longrightarrow>
        Header q ''X-Forwarded-For'' = None)"
  by (auto simp: sent_iff reqDumped_iff RoundTrip_part000_sent reqDumped_part000
      transported_handler_iff)

theorem forwarded_for_never_sent_witness:
  "Header pingRequest ''X-Forwarded-For'' = Some [''10.0.0.7''] \<and>
   sent (RoundTrip plainDumps refusing pingRequest) = Some (forwarded pingRequest) \<and>
   reqDumped (RoundTrip plainDumps refusing pingRequest) = Some (forwarded pingRequest) \<and>
   sent (RoundTrip_part000 plainDumps refusing pingRequest) = Some (forwarded pingRequest) \<and>
   reqDumped (RoundTrip_part000 plainDumps refusing pingRequest) = Some (forwarded pingRequest) \<and>
   Header (forwarded pingRequest) ''X-Forwarded-For'' = None \<and>
   Header (outbound backend pingRequest) ''X-Forwarded-For'' = Some [''10.0.0.7, 10.0.0.9''] \<and>
   transported (handler plainDumps refusing backend pingRequest) =
     Some (RoundTrip plainDumps refusing (outbound backend pingRequest)) \<and>
   sent (RoundTrip plainDumps refusing (outbound backend pingRequest)) =
     Some (forwarded (outbound backend pingRequest)) \<and>
   Header (forwarded (outbound backend pingRequest)) ''X-Forwarded-For'' = None"
proof -
  have r: "readable (Body pingRequest)"
    by (simp add: readable_def pingRequest_def NopCloser_def)
  have h: "Header pingRequest ''X-Forwarded-For'' = Some [''10.0.0.7'']"
    by (simp add: pingRequest_def)
  have s: "sent (RoundTrip plainDumps refusing pingRequest) = Some (forwarded pingRequest)"
    and d: "reqDumped (RoundTrip plainDumps refusing pingRequest) = Some (forwarded pingRequest)"
    using r by (simp_all add: sent_iff reqDumped_iff)
  have s0: "sent (RoundTrip_part000 plainDumps refusing pingRequest) = Some (forwarded pingRequest)"
    and d0: "reqDumped (RoundTrip_part000 plainDumps refusing pingRequest) = Some (forwarded pingRequest)"
    by (simp_all add: RoundTrip_part000_sent reqDumped_part000)
  have t: "transported (handler plainDumps refusing backend pingRequest) =
     Some (RoundTrip plainDumps refusing (outbound backend pingRequest))"
    using r by (simp add: handler_readable)
  have so: "sent (RoundTrip plainDumps refusing (outbound backend pingRequest)) =
     Some (forwarded (outbound backend pingRequest))"
    by (simp add: sent_iff)
  from forwarded_for_never_sent [of plainDumps refusing pingRequest backend pingRequest] s t so
  have "Header (forwarded pingRequest) ''X-Forwarded-For'' = None"
    and "Header (forwarded (outbound backend pingRequest)) ''X-Forwarded-For'' = None"
    by simp_all
  with h s d s0 d0 t so Header_outbound_ping show ?thesis by simp
qed

text \<open>
  Claim C7. The director sets the scheme, host and path of the URL and the \<open>Host\<close> field
  to the target's values and leaves the method, the query string, the header map, the body
  and every other field as they were. It is a total function with no error result, and
  the director of the second source file is the same function.
\<close>

theorem director_rewrites_only_the_address:
  "Scheme (URL (director tgt req)) = Scheme tgt \<and>
   URLHost (URL (director tgt req)) = URLHost tgt \<and>
   Path (URL (director tgt req)) = Path tgt \<and>
   Host (director tgt req) = URLHost tgt \<and>
   Method (director tgt req) = Method req \<and>
   RawQuery (URL (director tgt req)) = RawQuery (URL req) \<and>
   RawPath (URL (director tgt req)) = RawPath (URL req) \<and>
   Fragment (URL (director tgt req)) = Fragment (URL req) \<and>
   Header (director tgt req) = Header req \<and>
   Body (director tgt req) = Body req \<and>
   RemoteAddr (director tgt req) = RemoteAddr req \<and>
   director_part000 tgt req = director tgt req"
  by (simp add: director_def director_part000_def)

text \<open>
  Claim C8. At a request and a response with readable bodies, the \<open>RoundTrip\<close> of main.go
  drains the request's stream and the response's stream and leaves both open, and the
  handler leaves the client's stream open when its read fails; the handler after a
  successful read and the \<open>RoundTrip\<close> of the second source file close the stream they
  drained.
\<close>

theorem RoundTrip_leaves_streams_open:
  "reqStream (RoundTrip lib crt pingRequest) =
     Some \<lparr>pending = [], failure = None, closed = False\<rparr> \<and>
   respStream (RoundTrip lib (answering pongResponse) pingRequest) =
     Some \<lparr>pending = [], failure = None, closed = False\<rparr> \<and>
   clientStream (handler lib crt tgt brokenUpload) =
     Some \<lparr>pending = [], failure = Some (GoError ''unexpected EOF''), closed = False\<rparr> \<and>
   clientStream (handler lib crt tgt pingRequest) =
     Some \<lparr>pending = [], failure = None, closed = True\<rparr> \<and>
   reqStream (RoundTrip_part000 lib crt pingRequest) =
     Some \<lparr>pending = [], failure = None, closed = True\<rparr>"
proof -
  have r: "readable (Body pingRequest)"
    by (simp add: readable_def pingRequest_def NopCloser_def)
  have b: "Body pingRequest = Some \<lparr>pending = ''<xml>ping</xml>'', failure = None, closed = False\<rparr>"
    by (simp add: pingRequest_def NopCloser_def)
  have 1: "reqStream (RoundTrip lib crt pingRequest) =
     Some \<lparr>pending = [], failure = None, closed = False\<rparr>"
    using r b by (simp add: RoundTrip_readable)
  have 2: "respStream (RoundTrip lib (answering pongResponse) pingRequest) =
     Some \<lparr>pending = [], failure = None, closed = False\<rparr>"
    using r by (simp add: RoundTrip_readable execute_def answering_def pongResponse_def
        NopCloser_def ReadAll_def Let_def)
  have 3: "clientStream (handler lib crt tgt brokenUpload) =
     Some \<lparr>pending = [], failure = Some (GoError ''unexpected EOF''), closed = False\<rparr>"
    by (simp add: handler_def brokenUpload_def ReadAll_def)
  have 4: "clientStream (handler lib crt tgt pingRequest) =
     Some \<lparr>pending = [], failure = None, closed = True\<rparr>"
    using r b by (simp add: handler_readable)
  have 5: "reqStream (RoundTrip_part000 lib crt pingRequest) =
     Some \<lparr>pending = [], failure = None, closed = True\<rparr>"
    using b by (simp add: RoundTrip_part000_def ReadAll_def Close_def Let_def)
  from 1 2 3 4 5 show ?thesis by simp
qed

text \<open>
  Claim C9. With only the target on the command line the transport is built with
  \<open>InsecureSkipVerify\<close> set; a command line that names a verification flag, with either
  value, ends the process with status 2, since the flag set defines no such flag.
\<close>

theorem main_has_no_verification_flag:
  "main (\<lambda>u. Inr backend) [(''target'', ''https://backend.example/svc'')] =
     Serve \<lparr>target = backend, listenAddr = '':8080'',
            baseTransport = \<lparr>InsecureSkipVerify = True\<rparr>\<rparr> \<and>
   main (\<lambda>u. Inr backend) [(''insecure'', ''false''), (''target'', ''https://backend.example/svc'')]
     = Exit 2 \<and>
   main (\<lambda>u. Inr backend) [(''insecure'', ''true''), (''target'', ''https://backend.example/svc'')]
     = Exit 2"
  by (simp add: main_def)

text \<open>
  Claim C10. When the underlying transport returns a response whose body fails while it is
  read, \<open>RoundTrip\<close> returns that response object, its body stream drained, together with
  the read error; and in an exchange entered through the handler the client is written
  exactly one response, the 502 of the error boundary, not the upstream's status and body.
\<close>

theorem truncated_response_gives_502:
  "(\<forall>q up t e. sent (RoundTrip lib crt req) = Some q \<longrightarrow> proxied crt q = Inr up \<longrightarrow>
          RespBody up = Some t \<longrightarrow> failure t = Some e \<longrightarrow>
          result (RoundTrip lib crt req) =
            Failed (Some (up\<lparr>RespBody := Some (t\<lparr>pending := []\<rparr>)\<rparr>)) e) \<and>
   (\<forall>out q up t e. transported (handler lib crt tgt r) = Some out \<longrightarrow> sent out = Some q \<longrightarrow>
          proxied crt q = Inr up \<longrightarrow> RespBody up = Some t \<longrightarrow> failure t = Some e \<longrightarrow>
          result out = Failed (Some (up\<lparr>RespBody := Some (t\<lparr>pending := []\<rparr>)\<rparr>)) e \<and>
          written (handler lib crt tgt r) = [badGateway])"
proof -
  have 1: "result (RoundTrip lib crt x) = Failed (Some (up\<lparr>RespBody := Some (t\<lparr>pending := []\<rparr>)\<rparr>)) e"
    if "sent (RoundTrip lib crt x) = Some q" "proxied crt q = Inr up" "RespBody up = Some t"
      "failure t = Some e" for x q up t e
    using that by (simp add: sent_iff RoundTrip_readable execute_truncated)
  have 2: "result out = Failed (Some (up\<lparr>RespBody := Some (t\<lparr>pending := []\<rparr>)\<rparr>)) e \<and>
      written (handler lib crt tgt r) = [badGateway]"
    if "transported (handler lib crt tgt r) = Some out" "sent out = Some q" "proxied crt q = Inr up"
      "RespBody up = Some t" "failure t = Some e"
    for out q up t e
  proof -
    from that(1) have r: "readable (Body r)" and o: "out = RoundTrip lib crt (outbound tgt r)"
      by (simp_all add: transported_handler_iff)
    from 1 that(2-5) o have "result (RoundTrip lib crt (outbound tgt r)) =
        Failed (Some (up\<lparr>RespBody := Some (t\<lparr>pending := []\<rparr>)\<rparr>)) e"
      by simp
    with r o show ?thesis by (simp add: written_handler_Failed)
  qed
  from 1 2 show ?thesis by blast
qed

theorem truncated_response_gives_502_witness:
  "transported (handler plainDumps (answering brokenDownload) backend pingRequest) =
     Some (RoundTrip plainDumps (answering brokenDownload) (outbound backend pingRequest)) \<and>
   sent (RoundTrip plainDumps (answering brokenDownload) (outbound backend pingRequest)) =
     Some (forwarded (outbound backend pingRequest)) \<and>
   proxied (answering brokenDownload) (forwarded (outbound backend pingRequest)) =
     Inr brokenDownload \<and>
   RespBody brokenDownload =
     Some \<lparr>pending = ''<xml>po'', failure = Some (GoError ''connection reset''), closed = False\<rparr> \<and>
   result (RoundTrip plainDumps (answering brokenDownload) (outbound backend pingRequest)) =
     Failed (Some (brokenDownload\<lparr>RespBody :=
        Some \<lparr>pending = [], failure = Some (GoError ''connection reset''), closed = False\<rparr>\<rparr>))
       (GoError ''connection reset'') \<and>
   written (handler plainDumps (answering brokenDownload) backend pingRequest) = [badGateway] \<and>
   Code badGateway = 502 \<and> StatusCode brokenDownload = 200"
proof -
  have r: "readable (Body pingRequest)"
    by (simp add: readable_def pingRequest_def NopCloser_def)
  have t: "transported (handler plainDumps (answering brokenDownload) backend pingRequest) =
     Some (RoundTrip plainDumps (answering brokenDownload) (outbound backend pingRequest))"
    using r by (simp add: handler_readable)
  have so: "sent (RoundTrip plainDumps (answering brokenDownload) (outbound backend pingRequest)) =
     Some (forwarded (outbound backend pingRequest))"
    by (simp add: sent_iff)
  have p: "proxied (answering brokenDownload) (forwarded (outbound backend pingRequest)) =
     Inr brokenDownload"
    by (simp add: answering_def)
  have b: "RespBody brokenDownload =
     Some \<lparr>pending = ''<xml>po'', failure = Some (GoError ''connection reset''), closed = False\<rparr>"
    by (simp add: brokenDownload_def)
  have f: "failure \<lparr>pending = ''<xml>po'', failure = Some (GoError ''connection reset''),
      closed = False\<rparr> = Some (GoError ''connection reset'')"
    by simp
  have c: "Code badGateway = 502" "StatusCode brokenDownload = 200"
    by (simp_all add: badGateway_def brokenDownload_def pongResponse_def)
  from truncated_response_gives_502
    [of plainDumps "answering brokenDownload" pingRequest backend pingRequest] t so p b f c
  show ?thesis by simp
qed

end
